theory Spec2Isabelle
  imports Complex_Main
begin

section \<open>Status aggregator\<close>

text \<open>
  The three sub-statuses of a document record (data extraction, ledger/ERP entry,
  vehicle hire) are drawn from one enumeration; the pages show them under the
  labels \<open>Not Started\<close>, \<open>In Progress\<close>, \<open>Completed\<close>, \<open>Failed\<close> and
  \<open>Duplicate\<close>. The monitoring page only displays the \<open>overall_status\<close> it
  receives; the function computing it belongs to the backend (\<open>app.py\<close>), which
  is not among the sources.
\<close>

datatype sub_status = NotStarted | InProgress | Completed | Failed | Duplicate

text \<open>
  Modelled from the spec: \<open>ComputeOverallStatus\<close> (section 4.2), whose backend
  implementation is missing from the sources. Precedence, highest first: any
  \<open>Duplicate\<close>, then any \<open>Failed\<close>, then all three \<open>Completed\<close>, else
  \<open>InProgress\<close>.
\<close>

definition ComputeOverallStatus :: "sub_status \<Rightarrow> sub_status \<Rightarrow> sub_status \<Rightarrow> sub_status" where
  "ComputeOverallStatus extraction ledger hire =
     (if extraction = Duplicate \<or> ledger = Duplicate \<or> hire = Duplicate then Duplicate
      else if extraction = Failed \<or> ledger = Failed \<or> hire = Failed then Failed
      else if extraction = Completed \<and> ledger = Completed \<and> hire = Completed then Completed
      else InProgress)"

section \<open>JavaScript values\<close>

text \<open>
  A JavaScript number is an IEEE double: \<open>NaN\<close>, the two infinities, or a finite
  value. No arithmetic is done on the numbers modelled here, so a finite value is
  kept as the rational it denotes.
\<close>

datatype jsnum = NaN | PosInf | NegInf | Fin rat

datatype jsval =
    JUndefined
  | JNull
  | JBool bool
  | JNum jsnum
  | JStr string
  | JObj "(string \<times> jsval) list"

datatype js_error = TypeError

text \<open>\<open>Number.isFinite(n)\<close> on a number.\<close>

fun isFinite :: "jsnum \<Rightarrow> bool" where
  "isFinite (Fin _) = True"
| "isFinite _ = False"

text \<open>
  \<open>Number(v)\<close>. The conversion of strings and objects (\<open>StringToNumber\<close>,
  \<open>ToPrimitive\<close>) is the engine's; it is the parameter \<open>conv\<close>.
\<close>

fun Number_js :: "(jsval \<Rightarrow> jsnum) \<Rightarrow> jsval \<Rightarrow> jsnum" where
  "Number_js conv JUndefined = NaN"
| "Number_js conv JNull = Fin 0"
| "Number_js conv (JBool b) = (if b then Fin 1 else Fin 0)"
| "Number_js conv (JNum n) = n"
| "Number_js conv (JStr s) = conv (JStr s)"
| "Number_js conv (JObj kvs) = conv (JObj kvs)"

text \<open>\<open>v === null || v === undefined\<close>, the test behind \<open>??\<close>.\<close>

definition nullish :: "jsval \<Rightarrow> bool" where
  "nullish v = (v = JNull \<or> v = JUndefined)"

text \<open>\<open>a ?? b\<close>.\<close>

definition coalesce :: "jsval \<Rightarrow> jsval \<Rightarrow> jsval" where
  "coalesce a b = (if nullish a then b else a)"

text \<open>
  \<open>o.k\<close> for the keys read here, none of which is a property of a prototype: the
  own property when \<open>o\<close> is an object that has it, \<open>undefined\<close> on any other
  non-nullish value, and a \<open>TypeError\<close> on \<open>null\<close> and \<open>undefined\<close>. An object
  holds each key once; the list is searched from its head.
\<close>

definition own :: "(string \<times> jsval) list \<Rightarrow> string \<Rightarrow> jsval" where
  "own kvs k = (case map_of kvs k of None \<Rightarrow> JUndefined | Some v \<Rightarrow> v)"

fun get_prop :: "jsval \<Rightarrow> string \<Rightarrow> js_error + jsval" where
  "get_prop JUndefined k = Inl TypeError"
| "get_prop JNull k = Inl TypeError"
| "get_prop (JObj kvs) k = Inr (own kvs k)"
| "get_prop v k = Inr JUndefined"

section \<open>Dashboard: the Duplicate KPI card\<close>

text \<open>\<open>getNumeric\<close> of the dashboard page.\<close>

definition getNumeric :: "(jsval \<Rightarrow> jsnum) \<Rightarrow> jsval \<Rightarrow> jsnum" where
  "getNumeric conv v =
     (if v = JNull \<or> v = JUndefined then Fin 0
      else let n = Number_js conv v in if isFinite n then n else Fin 0)"

text \<open>
  \<open>duplicateValue\<close>: the chain of \<open>??\<close> over five keys of \<open>summary\<close> and the
  literal \<open>0\<close>, handed to \<open>getNumeric\<close>. Reading a key of a \<open>summary\<close> that is
  \<open>null\<close> or \<open>undefined\<close> throws. The first read, \<open>summary.duplicate\<close>, is always
  evaluated, and a read throws for one key exactly when it throws for every key, so
  reading all five before the chain gives the result of the short-circuit evaluation.
\<close>

definition duplicateValue :: "(jsval \<Rightarrow> jsnum) \<Rightarrow> jsval \<Rightarrow> js_error + jsnum" where
  "duplicateValue conv summary =
     (case (get_prop summary ''duplicate'', get_prop summary ''failed'',
            get_prop summary ''duplicates'', get_prop summary ''duplicate_count'',
            get_prop summary ''Duplicate'') of
        (Inr duplicate, Inr failed, Inr duplicates, Inr duplicate_count, Inr Duplicate_key) \<Rightarrow>
          Inr (getNumeric conv
                 (coalesce duplicate
                   (coalesce failed
                     (coalesce duplicates
                       (coalesce duplicate_count
                         (coalesce Duplicate_key (JNum (Fin 0))))))))
      | _ \<Rightarrow> Inl TypeError)"

text \<open>
  \<open>{card.value ?? 0}\<close>: what a KPI card prints for its value.
\<close>

definition shown :: "jsval \<Rightarrow> jsval" where
  "shown v = coalesce v (JNum (Fin 0))"

text \<open>
  The render of the dashboard page as far as the KPI cards go. \<open>duplicateValue\<close>
  is computed on every render, before the \<open>loading\<close> test; the four cards are built
  only when \<open>loading\<close> is false. The result is the list of the cards, title and
  printed value, \<open>None\<close> while the page shows its loading line.
\<close>

definition Dashboard :: "(jsval \<Rightarrow> jsnum) \<Rightarrow> bool \<Rightarrow> jsval \<Rightarrow> js_error + (string \<times> jsval) list option" where
  "Dashboard conv loading summary =
     (case duplicateValue conv summary of
        Inl e \<Rightarrow> Inl e
      | Inr d \<Rightarrow>
          if loading then Inr None
          else (case (get_prop summary ''total_docs'', get_prop summary ''completed'',
                      get_prop summary ''human_review'') of
                  (Inr t, Inr c, Inr h) \<Rightarrow>
                    Inr (Some [(''Total Documents'', shown t),
                               (''Completed'', shown c),
                               (''Duplicate'', shown (JNum d)),
                               (''Human Review'', shown h)])
                | _ \<Rightarrow> Inl TypeError))"

text \<open>The value printed on the card titled \<open>Duplicate\<close>, when the cards are rendered.\<close>

definition duplicate_card :: "(jsval \<Rightarrow> jsnum) \<Rightarrow> jsval \<Rightarrow> jsval option" where
  "duplicate_card conv summary =
     (case Dashboard conv False summary of
        Inr (Some cards) \<Rightarrow> map_of cards ''Duplicate''
      | _ \<Rightarrow> None)"

section \<open>Route guard\<close>

text \<open>
  \<open>ProtectedRoute\<close>, the variant with the idle timeout. \<open>location.pathname\<close> is
  the URL path of the browser, percent-encoded, so a string of ASCII characters;
  \<open>toLowerCase\<close> maps \<open>A\<close>..\<open>Z\<close> to \<open>a\<close>..\<open>z\<close> and leaves every other
  character as it is.
\<close>

definition lower_char :: "char \<Rightarrow> char" where
  "lower_char c =
     (let n = (of_char c :: nat) in if 65 \<le> n \<and> n \<le> 90 then char_of (n + 32) else c)"

definition toLowerCase :: "string \<Rightarrow> string" where
  "toLowerCase s = map lower_char s"

definition startsWith :: "string \<Rightarrow> string \<Rightarrow> bool" where
  "startsWith s p = (take (length p) s = p)"

text \<open>
  \<open>useLocation()\<close> gives the location; the guard reads it as
  \<open>location?.pathname || ""\<close>, so a missing location and a missing or empty
  pathname all read as the empty string.
\<close>

record location =
  pathname :: "string option"

definition guard_path :: "location option \<Rightarrow> string" where
  "guard_path loc =
     (case loc of
        None \<Rightarrow> []
      | Some l \<Rightarrow> (case pathname l of None \<Rightarrow> [] | Some p \<Rightarrow> p))"

text \<open>
  What the guard returns: its children, or
  \<open><Navigate to=... state={{ from: location }} replace />\<close>.
\<close>

datatype 'a element =
    Children 'a
  | Navigate string "location option" bool

text \<open>
  The return of \<open>ProtectedRoute\<close>. \<open>isLoggedIn\<close> is
  \<open>localStorage.getItem("isLoggedIn")\<close>, a string or \<open>null\<close>. The effects of
  the component (the timers) run only when \<open>isLoggedIn === "true"\<close> and do not
  change what this render returns.
\<close>

definition ProtectedRoute :: "string option \<Rightarrow> location option \<Rightarrow> 'a \<Rightarrow> 'a element" where
  "ProtectedRoute isLoggedIn loc children =
     (if isLoggedIn \<noteq> Some ''true'' then
        (let path = toLowerCase (guard_path loc) in
         if path = ''/upload'' \<or> startsWith path ''/upload/'' then Children children
         else Navigate ''/login'' loc True)
      else Children children)"

section \<open>Vehicle hire page\<close>







section \<open>Persisted schema\<close>

text \<open>
  The migrations as data: a table is the list of its column declarations. A
  \<open>SERIAL PRIMARY KEY\<close> column is \<open>NOT NULL\<close>; its default is the next value of
  the column's sequence.
\<close>

datatype sqltype = SERIAL | INTEGER | VARCHAR nat | DECIMAL nat nat | TIMESTAMP | DATE

datatype sqldefault = NoDefault | DefaultText string | CURRENT_TIMESTAMP

record column =
  cname :: string
  ctype :: sqltype
  not_null :: bool
  cdefault :: sqldefault
  references :: "(string \<times> string) option"

text \<open>\<open>migrations/create_telegram_sessions_table.sql\<close>.\<close>

definition telegram_pending_sessions :: "column list" where
  "telegram_pending_sessions =
     [\<lparr>cname = ''id'', ctype = SERIAL, not_null = True, cdefault = NoDefault, references = None\<rparr>,
      \<lparr>cname = ''doc_id'', ctype = INTEGER, not_null = True, cdefault = NoDefault,
         references = Some (''doc_processing_log'', ''doc_id'')\<rparr>,
      \<lparr>cname = ''phone_no'', ctype = VARCHAR 20, not_null = True, cdefault = NoDefault, references = None\<rparr>,
      \<lparr>cname = ''chat_id'', ctype = VARCHAR 50, not_null = False, cdefault = NoDefault, references = None\<rparr>,
      \<lparr>cname = ''manifest_no'', ctype = VARCHAR 50, not_null = False, cdefault = NoDefault, references = None\<rparr>,
      \<lparr>cname = ''advance_amount'', ctype = DECIMAL 15 2, not_null = False, cdefault = NoDefault, references = None\<rparr>,
      \<lparr>cname = ''qty'', ctype = DECIMAL 15 3, not_null = False, cdefault = NoDefault, references = None\<rparr>,
      \<lparr>cname = ''status'', ctype = VARCHAR 20, not_null = False, cdefault = DefaultText ''pending'',
         references = None\<rparr>,
      \<lparr>cname = ''created_at'', ctype = TIMESTAMP, not_null = False, cdefault = CURRENT_TIMESTAMP,
         references = None\<rparr>,
      \<lparr>cname = ''updated_at'', ctype = TIMESTAMP, not_null = False, cdefault = CURRENT_TIMESTAMP,
         references = None\<rparr>]"

text \<open>
  The values the comment on the \<open>status\<close> column lists. They are documentation:
  the column has no \<open>CHECK\<close>.
\<close>

definition documented_statuses :: "string list" where
  "documented_statuses = [''pending'', ''waiting_advance'', ''waiting_qty'', ''completed'']"


text \<open>
  Stored values. A number stored in a \<open>DECIMAL(p, s)\<close> column is rounded to
  \<open>s\<close> decimal places; \<open>SqlDecimal m s\<close> is the number \<open>m / 10\<^sup>s\<close>, kept
  with its scale (\<open>2500.00\<close> is \<open>SqlDecimal 250000 2\<close>). \<open>SqlNaN\<close> is the
  numeric value \<open>NaN\<close>, which PostgreSQL stores in a numeric column of any
  precision. A timestamp and a date are a count from an epoch, or one of the special
  values \<open>infinity\<close> and \<open>-infinity\<close> (\<open>SqlInfinity True\<close> and
  \<open>SqlInfinity False\<close>).
\<close>

datatype sqlval =
    SqlNull
  | SqlInt int
  | SqlText string
  | SqlDecimal int nat
  | SqlNaN
  | SqlTimestamp int
  | SqlDate int
  | SqlInfinity bool

text \<open>
  Whether a value other than \<open>NULL\<close> is one of the column's type: a four-byte
  integer; a string of at most \<open>n\<close> characters; \<open>NaN\<close> or a number of scale
  \<open>s\<close> with at most \<open>p\<close> digits, that is, below \<open>10\<^sup>p\<close> units of
  \<open>10\<^sup>-\<^sup>s\<close> in magnitude; a timestamp or a date, finite or infinite. A
  column with a precision does not take an infinite number.
\<close>

fun fits :: "sqltype \<Rightarrow> sqlval \<Rightarrow> bool" where
  "fits SERIAL (SqlInt i) = (- 2147483648 \<le> i \<and> i \<le> 2147483647)"
| "fits INTEGER (SqlInt i) = (- 2147483648 \<le> i \<and> i \<le> 2147483647)"
| "fits (VARCHAR n) (SqlText s) = (length s \<le> n)"
| "fits (DECIMAL p s) (SqlDecimal m sc) = (sc = s \<and> \<bar>m\<bar> < 10 ^ p)"
| "fits (DECIMAL p s) SqlNaN = True"
| "fits TIMESTAMP (SqlTimestamp t) = True"
| "fits TIMESTAMP (SqlInfinity b) = True"
| "fits DATE (SqlDate d) = True"
| "fits DATE (SqlInfinity b) = True"
| "fits _ _ = False"

text \<open>
  A row gives values to column names; a column it does not mention is \<open>NULL\<close>.
  \<open>refd t k v\<close> says that table \<open>t\<close> has a row whose column \<open>k\<close> is \<open>v\<close> (the
  referenced tables are not part of the sources).
\<close>

type_synonym row = "(string \<times> sqlval) list"

definition col :: "row \<Rightarrow> string \<Rightarrow> sqlval" where
  "col r k = (case map_of r k of None \<Rightarrow> SqlNull | Some v \<Rightarrow> v)"

definition column_ok :: "(string \<Rightarrow> string \<Rightarrow> sqlval \<Rightarrow> bool) \<Rightarrow> column \<Rightarrow> sqlval \<Rightarrow> bool" where
  "column_ok refd c v =
     (if v = SqlNull then \<not> not_null c
      else fits (ctype c) v \<and>
           (case references c of None \<Rightarrow> True | Some (t, k) \<Rightarrow> refd t k v))"

text \<open>
  The rows a table accepts: every declared column holds \<open>NULL\<close> where that is
  allowed or a value of its type that satisfies its foreign key, and the row names
  no other column. These are all the constraints the two migrations declare on a
  single row.
\<close>

definition row_ok :: "(string \<Rightarrow> string \<Rightarrow> sqlval \<Rightarrow> bool) \<Rightarrow> column list \<Rightarrow> row \<Rightarrow> bool" where
  "row_ok refd table r =
     (list_all (\<lambda>c. column_ok refd c (col r (cname c))) table \<and>
      list_all (\<lambda>k. k \<in> set (map cname table)) (map fst r))"

text \<open>
  The row an \<open>INSERT\<close> stores: a column the statement names gets the given
  value, any other its default.
\<close>

definition default_value :: "int \<Rightarrow> int \<Rightarrow> column \<Rightarrow> sqlval" where
  "default_value nextval now c =
     (if ctype c = SERIAL then SqlInt nextval
      else (case cdefault c of
              NoDefault \<Rightarrow> SqlNull
            | DefaultText s \<Rightarrow> SqlText s
            | CURRENT_TIMESTAMP \<Rightarrow> SqlTimestamp now))"

definition insert_row :: "column list \<Rightarrow> int \<Rightarrow> int \<Rightarrow> row \<Rightarrow> row" where
  "insert_row table nextval now given =
     map (\<lambda>c. (cname c,
                case map_of given (cname c) of
                  Some v \<Rightarrow> v
                | None \<Rightarrow> default_value nextval now c)) table"

text \<open>
  Modelled from the spec: the states of a session that section 4.1 names, in the
  spec's spelling and in the spelling of the schema's comment.
\<close>

definition claimed_session_states :: "string list" where
  "claimed_session_states =
     [''Pending'', ''AwaitingAdvance'', ''AwaitingQuantity'', ''Completed'', ''Expired'', ''Cancelled'',
      ''pending'', ''waiting_advance'', ''waiting_qty'', ''completed'', ''expired'', ''cancelled'']"

text \<open>The integer types, and the names of a table's columns of one kind.\<close>

fun is_integer :: "sqltype \<Rightarrow> bool" where
  "is_integer SERIAL = True"
| "is_integer INTEGER = True"
| "is_integer _ = False"

definition columns_of_kind :: "(sqltype \<Rightarrow> bool) \<Rightarrow> column list \<Rightarrow> string list" where
  "columns_of_kind kind table = map cname (filter (\<lambda>c. kind (ctype c)) table)"




section \<open>Session orchestrator\<close>

text \<open>
  The orchestrator is backend code (\<open>routes/vehicle_hire_routes.py\<close>,
  \<open>telegram_user_client.py\<close>); none of it is among the sources. Every definition
  of this section is modelled from the spec.
\<close>

text \<open>
  Modelled from the spec: the states of the session state machine (section 4.1),
  whose implementation is missing from the sources. \<open>Completed_session\<close> is the
  spec's \<open>Completed\<close>.
\<close>

datatype session_state =
    Pending
  | AwaitingAdvance
  | AwaitingQuantity
  | Completed_session
  | Expired
  | Cancelled

text \<open>
  Modelled from the spec: the conversational session of section 3, whose store is
  missing from the sources. The retry counter is the one section 4.1 increments on
  a reply that does not parse; \<open>processed_ids\<close> is the set of provider message ids
  of section 5, kept with the session it is scoped to.
\<close>

record session =
  session_id :: nat
  document_id :: nat
  channel_identity :: "string option"
  counterparty_address :: string
  state :: session_state
  advance_amount :: "rat option"
  quantity :: "rat option"
  created_at :: nat
  last_activity_at :: nat
  version :: nat
  retry_count :: nat
  processed_ids :: "string list"

text \<open>
  Modelled from the spec: the hire ledger entry of section 3, created at
  finalization.
\<close>

record ledger_entry =
  ledger_document_id :: nat
  ledger_advance_amount :: rat
  ledger_quantity :: rat

text \<open>
  Modelled from the spec: the session store of section 2 together with what the
  orchestrator reads and writes of the documents, their \<open>hire_status\<close>. Sessions
  are appended and never deleted.
\<close>

record store =
  sessions :: "session list"
  hire_status :: "nat \<rightharpoonup> sub_status"
  ledger :: "ledger_entry list"
  next_session_id :: nat

text \<open>
  Modelled from the spec: the error taxonomy of section 7. The spec names no error
  for a \<open>StartSession\<close> on a document whose \<open>hire_status\<close> is not
  \<open>NotStarted\<close>, and calls a reply in a state that does not expect one a state
  mismatch; \<open>PreconditionError\<close> and \<open>StateMismatch\<close> stand for the two.
\<close>

datatype orch_error =
    ConflictError
  | UnknownSessionError
  | DuplicateEventError
  | ValidationError
  | GatewayError
  | ConcurrencyConflict
  | PreconditionError
  | StateMismatch

text \<open>
  Modelled from the spec: a session is open in the three states that are not
  terminal (section 4.1).
\<close>

fun open_state :: "session_state \<Rightarrow> bool" where
  "open_state Pending = True"
| "open_state AwaitingAdvance = True"
| "open_state AwaitingQuantity = True"
| "open_state Completed_session = False"
| "open_state Expired = False"
| "open_state Cancelled = False"

definition is_open :: "session \<Rightarrow> bool" where
  "is_open s = open_state (state s)"

text \<open>
  Modelled from the spec: the open session of a document (section 3: a document has
  at most one), the oldest one should there be several.
\<close>

definition open_session_for :: "store \<Rightarrow> nat \<Rightarrow> session option" where
  "open_session_for st documentId =
     find (\<lambda>s. document_id s = documentId \<and> is_open s) (sessions st)"


text \<open>
  Modelled from the spec: \<open>StartSession\<close> (section 4.1), missing from the sources.
  An open session of the document makes the call return that session's id and
  change nothing. Otherwise the document's \<open>hire_status\<close> must be \<open>NotStarted\<close>
  (the spec names no error for a document that fails this; the model's is
  \<open>PreconditionError\<close>), and a session is created in \<open>Pending\<close>, moved to
  \<open>AwaitingAdvance\<close> when the gateway acknowledges the first prompt within the
  wait; an unacknowledged prompt leaves it in \<open>Pending\<close>.
\<close>

definition StartSession ::
  "nat \<Rightarrow> bool \<Rightarrow> store \<Rightarrow> nat \<Rightarrow> string \<Rightarrow> (orch_error + nat) \<times> store" where
  "StartSession now acknowledged st documentId counterpartyAddress =
     (case open_session_for st documentId of
        Some s \<Rightarrow> (Inr (session_id s), st)
      | None \<Rightarrow>
          if hire_status st documentId \<noteq> Some NotStarted then (Inl PreconditionError, st)
          else
            (let sid = next_session_id st;
                 s = \<lparr>session_id = sid, document_id = documentId, channel_identity = None,
                      counterparty_address = counterpartyAddress,
                      state = (if acknowledged then AwaitingAdvance else Pending),
                      advance_amount = None, quantity = None,
                      created_at = now, last_activity_at = now, version = 0,
                      retry_count = 0, processed_ids = []\<rparr>
             in (Inr sid, st\<lparr>sessions := sessions st @ [s], next_session_id := sid + 1\<rparr>)))"

text \<open>
  Modelled from the spec: \<open>ExpireIdleSessions\<close> (section 4.1), missing from the
  sources. A session is idle when it is open and its last activity lies more than
  the threshold before \<open>now\<close>; every idle session becomes \<open>Expired\<close>, and the
  documents are not touched. The threshold is the one after which the policy
  expires (the second of the two tiers).
\<close>

definition idle :: "nat \<Rightarrow> nat \<Rightarrow> session \<Rightarrow> bool" where
  "idle now idleThreshold s = (is_open s \<and> last_activity_at s + idleThreshold < now)"

definition ExpireIdleSessions :: "nat \<Rightarrow> nat \<Rightarrow> store \<Rightarrow> nat list \<times> store" where
  "ExpireIdleSessions now idleThreshold st =
     (map session_id (filter (idle now idleThreshold) (sessions st)),
      st\<lparr>sessions :=
           map (\<lambda>s. if idle now idleThreshold s
                    then s\<lparr>state := Expired, version := version s + 1\<rparr> else s)
               (sessions st)\<rparr>)"

section \<open>Concrete documents and rows\<close>

text \<open>A state of \<open>doc_processing_log\<close> in which document 42 exists.\<close>

definition refd42 :: "string \<Rightarrow> string \<Rightarrow> sqlval \<Rightarrow> bool" where
  "refd42 t k v = (t = ''doc_processing_log'' \<and> k = ''doc_id'' \<and> v = SqlInt 42)"

text \<open>A session row whose status is none of the states of the machine.\<close>

definition session_row_bogus :: row where
  "session_row_bogus =
     [(''id'', SqlInt 1), (''doc_id'', SqlInt 42), (''phone_no'', SqlText ''9990001111''),
      (''status'', SqlText ''bogus'')]"

text \<open>
  The \<open>INSERT\<close> of a new session for document 42 that names \<open>doc_id\<close> and
  \<open>phone_no\<close> only.
\<close>

definition session_insert_42 :: row where
  "session_insert_42 = [(''doc_id'', SqlInt 42), (''phone_no'', SqlText ''9990001111'')]"






text \<open>
  Document 42 of the scenario of section 8 of the spec: the store in which it has no
  session, and the store after a session was started for it at time 100 with the
  first prompt acknowledged.
\<close>

definition store_empty :: store where
  "store_empty =
     \<lparr>sessions = [], hire_status = [42 \<mapsto> NotStarted], ledger = [], next_session_id = 1\<rparr>"

definition session_started :: session where
  "session_started =
     \<lparr>session_id = 1, document_id = 42, channel_identity = None,
      counterparty_address = ''9990001111'', state = AwaitingAdvance,
      advance_amount = None, quantity = None, created_at = 100, last_activity_at = 100,
      version = 0, retry_count = 0, processed_ids = []\<rparr>"

definition store_started :: store where
  "store_started =
     \<lparr>sessions = [session_started], hire_status = [42 \<mapsto> NotStarted], ledger = [],
      next_session_id = 2\<rparr>"

section \<open>Properties of the status aggregator\<close>

text \<open>
  C1. \<open>ComputeOverallStatus\<close> is defined on every combination of the three
  sub-statuses and follows the precedence rule: any \<open>Duplicate\<close> gives
  \<open>Duplicate\<close>; otherwise any \<open>Failed\<close> gives \<open>Failed\<close>; otherwise three
  \<open>Completed\<close> give \<open>Completed\<close>; every remaining combination gives
  \<open>InProgress\<close>. The four cases are exhaustive, and the result is never
  \<open>NotStarted\<close>.
\<close>

theorem ComputeOverallStatus_precedence:
  "(Duplicate \<in> {e, l, h} \<longrightarrow> ComputeOverallStatus e l h = Duplicate) \<and>
   (Duplicate \<notin> {e, l, h} \<and> Failed \<in> {e, l, h} \<longrightarrow> ComputeOverallStatus e l h = Failed) \<and>
   (e = Completed \<and> l = Completed \<and> h = Completed \<longrightarrow> ComputeOverallStatus e l h = Completed) \<and>
   (Duplicate \<notin> {e, l, h} \<and> Failed \<notin> {e, l, h} \<and> {e, l, h} \<noteq> {Completed} \<longrightarrow>
      ComputeOverallStatus e l h = InProgress) \<and>
   ComputeOverallStatus e l h \<in> {Duplicate, Failed, Completed, InProgress}"
  unfolding ComputeOverallStatus_def by auto

theorem ComputeOverallStatus_precedence_witness:
  "ComputeOverallStatus Duplicate Failed NotStarted = Duplicate \<and>
   ComputeOverallStatus Failed Completed Completed = Failed \<and>
   ComputeOverallStatus Completed Completed Completed = Completed \<and>
   ComputeOverallStatus Completed InProgress NotStarted = InProgress"
  using ComputeOverallStatus_precedence [of Duplicate Failed NotStarted]
        ComputeOverallStatus_precedence [of Failed Completed Completed]
        ComputeOverallStatus_precedence [of Completed Completed Completed]
        ComputeOverallStatus_precedence [of Completed InProgress NotStarted]
  by simp

section \<open>Properties of the dashboard\<close>

lemma duplicate_card_obj:
  "duplicate_card conv (JObj kvs) =
     Some (JNum (getNumeric conv
       (coalesce (own kvs ''duplicate'')
         (coalesce (own kvs ''failed'')
           (coalesce (own kvs ''duplicates'')
             (coalesce (own kvs ''duplicate_count'')
               (coalesce (own kvs ''Duplicate'') (JNum (Fin 0)))))))))"
  by (simp add: duplicate_card_def Dashboard_def duplicateValue_def shown_def)
     (simp add: coalesce_def nullish_def)

text \<open>
  C10. For a \<open>summary\<close> object, the Duplicate card prints
  \<open>Number(summary.duplicate)\<close> when that key holds a value other than \<open>null\<close>
  and \<open>undefined\<close> whose number is finite. When \<open>summary.duplicate\<close> is \<open>null\<close>
  or \<open>undefined\<close> the printed value is \<open>getNumeric\<close> of the first of
  \<open>summary.failed\<close>, \<open>summary.duplicates\<close>, \<open>summary.duplicate_count\<close>,
  \<open>summary["Duplicate"]\<close> that is neither \<open>null\<close> nor \<open>undefined\<close>, and \<open>0\<close>
  when there is none. In particular a summary with a finite \<open>failed\<close> count and no
  duplicate key prints the failed count on the Duplicate card.
\<close>

theorem duplicate_card_fallback:
  "(\<not> nullish (own kvs ''duplicate'') \<and> isFinite (Number_js conv (own kvs ''duplicate'')) \<longrightarrow>
      duplicate_card conv (JObj kvs) = Some (JNum (Number_js conv (own kvs ''duplicate'')))) \<and>
   (nullish (own kvs ''duplicate'') \<longrightarrow>
      duplicate_card conv (JObj kvs) =
        Some (JNum (getNumeric conv
          (coalesce (own kvs ''failed'')
            (coalesce (own kvs ''duplicates'')
              (coalesce (own kvs ''duplicate_count'')
                (coalesce (own kvs ''Duplicate'') (JNum (Fin 0))))))))) \<and>
   (nullish (own kvs ''duplicate'') \<and> own kvs ''failed'' = JNum (Fin n) \<longrightarrow>
      duplicate_card conv (JObj kvs) = Some (JNum (Fin n)))"
  by (auto simp: duplicate_card_obj getNumeric_def coalesce_def nullish_def)

theorem duplicate_card_fallback_witness:
  "duplicate_card (\<lambda>v. NaN) (JObj [(''total_docs'', JNum (Fin 12)), (''failed'', JNum (Fin 7))])
     = Some (JNum (Fin 7)) \<and>
   duplicate_card (\<lambda>v. NaN) (JObj [(''duplicate'', JNum (Fin 3)), (''failed'', JNum (Fin 7))])
     = Some (JNum (Fin 3)) \<and>
   duplicate_card (\<lambda>v. NaN) (JObj [(''duplicate'', JNull), (''duplicates'', JNum (Fin 5))])
     = Some (JNum (Fin 5))"
  using duplicate_card_fallback
          [of "[(''total_docs'', JNum (Fin 12)), (''failed'', JNum (Fin 7))]" "\<lambda>v. NaN" 7]
        duplicate_card_fallback
          [of "[(''duplicate'', JNum (Fin 3)), (''failed'', JNum (Fin 7))]" "\<lambda>v. NaN" 0]
        duplicate_card_fallback
          [of "[(''duplicate'', JNull), (''duplicates'', JNum (Fin 5))]" "\<lambda>v. NaN" 0]
  by (simp add: own_def nullish_def coalesce_def getNumeric_def)

section \<open>Properties of the route guard\<close>

lemma startsWith_append: "startsWith s p \<longleftrightarrow> (\<exists>rest. s = p @ rest)"
  unfolding startsWith_def
  by (metis append_eq_conv_conj append_take_drop_id)

lemma toLowerCase_examples:
  "toLowerCase ''/Upload/batch'' = ''/upload/batch''"
  "toLowerCase ''/UPLOAD'' = ''/upload''"
  "toLowerCase ''/uploads'' = ''/uploads''"
  "toLowerCase ''/dashboard'' = ''/dashboard''"
  by code_simp+

text \<open>
  C9. When \<open>localStorage\<close>'s \<open>isLoggedIn\<close> is not \<open>"true"\<close>, the guard renders
  its children exactly for a path whose lowercased form is \<open>/upload\<close> or begins
  with \<open>/upload/\<close>; every other path is redirected to \<open>/login\<close> (with
  \<open>replace\<close> and the location it came from).
\<close>

theorem ProtectedRoute_logged_out:
  assumes "isLoggedIn \<noteq> Some ''true''"
  shows "(toLowerCase (guard_path loc) = ''/upload'' \<or>
            (\<exists>rest. toLowerCase (guard_path loc) = ''/upload/'' @ rest)
          \<longrightarrow> ProtectedRoute isLoggedIn loc ch = Children ch) \<and>
         (\<not> (toLowerCase (guard_path loc) = ''/upload'' \<or>
              (\<exists>rest. toLowerCase (guard_path loc) = ''/upload/'' @ rest))
          \<longrightarrow> ProtectedRoute isLoggedIn loc ch = Navigate ''/login'' loc True)"
  using assms unfolding ProtectedRoute_def Let_def startsWith_append by auto

theorem ProtectedRoute_logged_out_witness:
  "ProtectedRoute None (Some \<lparr>pathname = Some ''/Upload/batch''\<rparr>) (0::nat) = Children 0 \<and>
   ProtectedRoute (Some ''false'') (Some \<lparr>pathname = Some ''/UPLOAD''\<rparr>) (0::nat) = Children 0 \<and>
   ProtectedRoute None (Some \<lparr>pathname = Some ''/uploads''\<rparr>) (0::nat)
     = Navigate ''/login'' (Some \<lparr>pathname = Some ''/uploads''\<rparr>) True \<and>
   ProtectedRoute None (Some \<lparr>pathname = Some ''/dashboard''\<rparr>) (0::nat)
     = Navigate ''/login'' (Some \<lparr>pathname = Some ''/dashboard''\<rparr>) True"
  using ProtectedRoute_logged_out
          [of None "Some \<lparr>pathname = Some ''/Upload/batch''\<rparr>" "0::nat"]
        ProtectedRoute_logged_out
          [of "Some ''false''" "Some \<lparr>pathname = Some ''/UPLOAD''\<rparr>" "0::nat"]
        ProtectedRoute_logged_out
          [of None "Some \<lparr>pathname = Some ''/uploads''\<rparr>" "0::nat"]
        ProtectedRoute_logged_out
          [of None "Some \<lparr>pathname = Some ''/dashboard''\<rparr>" "0::nat"]
  by (simp add: guard_path_def toLowerCase_examples)

section \<open>Properties of the persisted schema\<close>

lemma row_ok_column:
  "row_ok refd t r \<Longrightarrow> c \<in> set t \<Longrightarrow> column_ok refd c (col r (cname c))"
  by (simp add: row_ok_def list_all_iff)

lemma row_ok_names:
  "row_ok refd t r \<Longrightarrow> k \<notin> set (map cname t) \<Longrightarrow> col r k = SqlNull"
  unfolding row_ok_def col_def list_all_iff
  by (auto split: option.splits dest!: map_of_SomeD)

lemma fits_VARCHAR: "fits (VARCHAR n) v \<longleftrightarrow> (\<exists>s. v = SqlText s \<and> length s \<le> n)"
  by (cases v) auto


lemma fits_SERIAL: "fits SERIAL v \<longleftrightarrow> (\<exists>i. v = SqlInt i \<and> - 2147483648 \<le> i \<and> i \<le> 2147483647)"
  by (cases v) auto

lemma session_insert_42_row:
  "insert_row telegram_pending_sessions 7 1000 session_insert_42 =
     [(''id'', SqlInt 7), (''doc_id'', SqlInt 42), (''phone_no'', SqlText ''9990001111''),
      (''chat_id'', SqlNull), (''manifest_no'', SqlNull), (''advance_amount'', SqlNull),
      (''qty'', SqlNull), (''status'', SqlText ''pending''), (''created_at'', SqlTimestamp 1000),
      (''updated_at'', SqlTimestamp 1000)]"
  by (simp add: insert_row_def telegram_pending_sessions_def session_insert_42_def default_value_def)

lemma session_insert_42_ok:
  "row_ok refd42 telegram_pending_sessions (insert_row telegram_pending_sessions 7 1000 session_insert_42)"
  unfolding session_insert_42_row
  by (simp add: row_ok_def telegram_pending_sessions_def column_ok_def col_def refd42_def)

text \<open>
  C6, as stated, fails on the schema: the sessions table accepts a row whose
  \<open>status\<close> is none of the states of the machine, in either spelling.
\<close>

theorem session_status_counterexample:
  "row_ok refd42 telegram_pending_sessions session_row_bogus \<and>
   col session_row_bogus ''status'' = SqlText ''bogus'' \<and>
   col session_row_bogus ''status'' \<notin> set (map SqlText claimed_session_states)"
  by (simp add: row_ok_def telegram_pending_sessions_def session_row_bogus_def column_ok_def col_def
        refd42_def claimed_session_states_def)

text \<open>
  C6, amended. The \<open>status\<close> of every row the sessions table accepts is \<open>NULL\<close>
  or a string of at most 20 characters, and a row inserted without a status gets
  \<open>pending\<close>; the four values the schema's comment lists fit the column, and
  nothing restricts the column to them.
\<close>

theorem session_status_varchar:
  "(row_ok refd telegram_pending_sessions r \<longrightarrow>
      col r ''status'' = SqlNull \<or> (\<exists>s. col r ''status'' = SqlText s \<and> length s \<le> 20)) \<and>
   (map_of given ''status'' = None \<longrightarrow>
      col (insert_row telegram_pending_sessions nextval now given) ''status'' = SqlText ''pending'') \<and>
   list_all (\<lambda>s. fits (VARCHAR 20) (SqlText s)) documented_statuses"
proof (intro conjI impI)
  assume ok: "row_ok refd telegram_pending_sessions r"
  have "column_ok refd
          \<lparr>cname = ''status'', ctype = VARCHAR 20, not_null = False,
             cdefault = DefaultText ''pending'', references = None\<rparr>
          (col r ''status'')"
    using row_ok_column [OF ok,
      of "\<lparr>cname = ''status'', ctype = VARCHAR 20, not_null = False,
            cdefault = DefaultText ''pending'', references = None\<rparr>"]
    by (simp add: telegram_pending_sessions_def)
  then show "col r ''status'' = SqlNull \<or> (\<exists>s. col r ''status'' = SqlText s \<and> length s \<le> 20)"
    by (auto simp: column_ok_def fits_VARCHAR split: if_splits)
next
  assume "map_of given ''status'' = None"
  then show "col (insert_row telegram_pending_sessions nextval now given) ''status'' = SqlText ''pending''"
    by (simp add: insert_row_def telegram_pending_sessions_def col_def default_value_def)
next
  show "list_all (\<lambda>s. fits (VARCHAR 20) (SqlText s)) documented_statuses"
    by (simp add: documented_statuses_def)
qed

theorem session_status_varchar_witness:
  "row_ok refd42 telegram_pending_sessions session_row_bogus \<and>
   (\<exists>s. col session_row_bogus ''status'' = SqlText s \<and> length s \<le> 20) \<and>
   map_of session_insert_42 ''status'' = None \<and>
   col (insert_row telegram_pending_sessions 7 1000 session_insert_42) ''status'' = SqlText ''pending''"
proof -
  have ok: "row_ok refd42 telegram_pending_sessions session_row_bogus"
    by (simp add: row_ok_def telegram_pending_sessions_def session_row_bogus_def column_ok_def
          col_def refd42_def)
  have none: "map_of session_insert_42 ''status'' = None"
    by (simp add: session_insert_42_def)
  have nonnull: "col session_row_bogus ''status'' \<noteq> SqlNull"
    by (simp add: session_row_bogus_def col_def)
  show ?thesis
    using ok none nonnull
      session_status_varchar [of refd42 session_row_bogus session_insert_42 7 1000]
    by simp
qed

text \<open>
  C7, as stated, fails on the schema: the sessions table has no \<open>version\<close>
  column, and its only integer columns are the primary key and the foreign key, so
  no column under any name is a version or sequence counter of the record.
\<close>

theorem session_version_counterexample:
  "''version'' \<notin> set (map cname telegram_pending_sessions) \<and>
   columns_of_kind is_integer telegram_pending_sessions = [''id'', ''doc_id'']"
  by (simp add: telegram_pending_sessions_def columns_of_kind_def)

text \<open>
  C7, amended. A persisted session record carries no version counter: a row the
  sessions table accepts names only the columns \<open>id\<close>, \<open>doc_id\<close>, \<open>phone_no\<close>,
  \<open>chat_id\<close>, \<open>manifest_no\<close>, \<open>advance_amount\<close>, \<open>qty\<close>, \<open>status\<close>,
  \<open>created_at\<close> and \<open>updated_at\<close>, and its \<open>version\<close> reads \<open>NULL\<close>. What
  the record carries instead is its \<open>SERIAL\<close> key, an integer, and the two
  timestamps, which an \<open>INSERT\<close> that does not name them sets to the current time.
\<close>

theorem session_row_columns:
  "(row_ok refd telegram_pending_sessions r \<longrightarrow>
      set (map fst r) \<subseteq>
        {''id'', ''doc_id'', ''phone_no'', ''chat_id'', ''manifest_no'', ''advance_amount'', ''qty'',
         ''status'', ''created_at'', ''updated_at''} \<and>
      col r ''version'' = SqlNull \<and>
      (\<exists>i. col r ''id'' = SqlInt i)) \<and>
   (map_of given ''created_at'' = None \<and> map_of given ''updated_at'' = None \<longrightarrow>
      col (insert_row telegram_pending_sessions nextval now given) ''created_at'' = SqlTimestamp now \<and>
      col (insert_row telegram_pending_sessions nextval now given) ''updated_at'' = SqlTimestamp now)"
proof (intro conjI impI)
  assume ok: "row_ok refd telegram_pending_sessions r"
  then show "set (map fst r) \<subseteq>
        {''id'', ''doc_id'', ''phone_no'', ''chat_id'', ''manifest_no'', ''advance_amount'', ''qty'',
         ''status'', ''created_at'', ''updated_at''}"
    by (auto simp: row_ok_def list_all_iff telegram_pending_sessions_def)
  show "col r ''version'' = SqlNull"
    using row_ok_names [OF ok, of "''version''"] by (simp add: telegram_pending_sessions_def)
  have "column_ok refd
          \<lparr>cname = ''id'', ctype = SERIAL, not_null = True, cdefault = NoDefault, references = None\<rparr>
          (col r ''id'')"
    using row_ok_column [OF ok,
      of "\<lparr>cname = ''id'', ctype = SERIAL, not_null = True, cdefault = NoDefault, references = None\<rparr>"]
    by (simp add: telegram_pending_sessions_def)
  then show "\<exists>i. col r ''id'' = SqlInt i"
    by (auto simp: column_ok_def fits_SERIAL split: if_splits)
next
  assume "map_of given ''created_at'' = None \<and> map_of given ''updated_at'' = None"
  then show "col (insert_row telegram_pending_sessions nextval now given) ''created_at'' = SqlTimestamp now"
    by (simp add: insert_row_def telegram_pending_sessions_def col_def default_value_def)
next
  assume "map_of given ''created_at'' = None \<and> map_of given ''updated_at'' = None"
  then show "col (insert_row telegram_pending_sessions nextval now given) ''updated_at'' = SqlTimestamp now"
    by (simp add: insert_row_def telegram_pending_sessions_def col_def default_value_def)
qed

theorem session_row_columns_witness:
  "row_ok refd42 telegram_pending_sessions (insert_row telegram_pending_sessions 7 1000 session_insert_42) \<and>
   col (insert_row telegram_pending_sessions 7 1000 session_insert_42) ''version'' = SqlNull \<and>
   col (insert_row telegram_pending_sessions 7 1000 session_insert_42) ''id'' = SqlInt 7 \<and>
   col (insert_row telegram_pending_sessions 7 1000 session_insert_42) ''updated_at'' = SqlTimestamp 1000"
proof -
  have none: "map_of session_insert_42 ''created_at'' = None \<and> map_of session_insert_42 ''updated_at'' = None"
    by (simp add: session_insert_42_def)
  have key: "col (insert_row telegram_pending_sessions 7 1000 session_insert_42) ''id'' = SqlInt 7"
    unfolding session_insert_42_row by (simp add: col_def)
  show ?thesis
    using session_insert_42_ok none key
      session_row_columns [of refd42 "insert_row telegram_pending_sessions 7 1000 session_insert_42"
        session_insert_42 7 1000]
    by simp
qed










section \<open>Properties of the session orchestrator\<close>

lemma find_append:
  "find P (xs @ ys) = (case find P xs of None \<Rightarrow> find P ys | Some x \<Rightarrow> Some x)"
  by (induction xs) auto

lemma open_session_for_created:
  assumes "open_session_for st d = None"
  shows "open_session_for (st\<lparr>sessions := sessions st @ [s], next_session_id := n\<rparr>) d
           = (if document_id s = d \<and> is_open s then Some s else None)"
  using assms by (simp add: open_session_for_def find_append)

lemma StartSession_twice:
  assumes "fst (StartSession now ack st d a) = Inr sid"
  shows "StartSession now' ack' (snd (StartSession now ack st d a)) d a'
           = (Inr sid, snd (StartSession now ack st d a))"
proof (cases "open_session_for st d")
  case (Some s)
  with assms show ?thesis by (simp add: StartSession_def)
next
  case None
  with assms have hire: "hire_status st d = Some NotStarted"
    by (auto simp: StartSession_def split: if_splits)
  show ?thesis
    using assms None hire
    by (simp add: StartSession_def Let_def open_session_for_created is_open_def)
qed

lemma start_empty:
  "StartSession 100 True store_empty 42 ''9990001111'' = (Inr 1, store_started)"
  by (simp add: StartSession_def open_session_for_def store_empty_def store_started_def
        session_started_def)

lemma open_started: "open_session_for store_started 42 = Some session_started"
  by (simp add: open_session_for_def store_started_def session_started_def is_open_def)

text \<open>
  C3. \<open>StartSession\<close> is idempotent on an open session: for a document that has
  an open session the call returns that session's id and leaves the store as it
  is, so no row is added; and whenever a call returns a session id, the next call
  for the same document returns the same id and changes nothing.
\<close>

theorem StartSession_idempotent:
  "(open_session_for st d = Some s \<longrightarrow>
      StartSession now ack st d a = (Inr (session_id s), st)) \<and>
   (fst (StartSession now ack st d a) = Inr sid \<longrightarrow>
      StartSession now' ack' (snd (StartSession now ack st d a)) d a'
        = (Inr sid, snd (StartSession now ack st d a)))"
  by (simp add: StartSession_twice) (simp add: StartSession_def)

theorem StartSession_idempotent_witness:
  "open_session_for store_started 42 = Some session_started \<and>
   StartSession 130 False store_started 42 ''9990002222'' = (Inr 1, store_started) \<and>
   fst (StartSession 100 True store_empty 42 ''9990001111'') = Inr 1 \<and>
   StartSession 130 False (snd (StartSession 100 True store_empty 42 ''9990001111'')) 42 ''9990002222''
     = (Inr 1, store_started)"
proof -
  have sid: "session_id session_started = 1" by (simp add: session_started_def)
  have first: "fst (StartSession 100 True store_empty 42 ''9990001111'') = Inr 1"
    by (simp add: start_empty)
  have st1: "snd (StartSession 100 True store_empty 42 ''9990001111'') = store_started"
    by (simp add: start_empty)
  show ?thesis
    using open_started sid first st1
      StartSession_idempotent
        [of store_started 42 session_started 130 False "''9990002222''" 1 130 False "''9990002222''"]
      StartSession_idempotent
        [of store_empty 42 session_started 100 True "''9990001111''" 1 130 False "''9990002222''"]
    by simp
qed

lemma not_idle_expired: "\<not> idle now thr (s\<lparr>state := Expired, version := v\<rparr>)"
  by (simp add: idle_def is_open_def)

lemma ExpireIdleSessions_open_for:
  assumes "\<forall>s \<in> set (sessions st). document_id s = d \<and> is_open s \<longrightarrow> idle now thr s"
  shows "open_session_for (snd (ExpireIdleSessions now thr st)) d = None"
  using assms
  by (auto simp: open_session_for_def ExpireIdleSessions_def find_None_iff is_open_def)

lemma ExpireIdleSessions_then_start:
  assumes "hire_status st d = Some NotStarted"
    and "\<forall>s \<in> set (sessions st). document_id s = d \<and> is_open s \<longrightarrow> idle now thr s"
  shows "fst (StartSession now' ack (snd (ExpireIdleSessions now thr st)) d a)
           = Inr (next_session_id st) \<and>
         length (sessions (snd (StartSession now' ack (snd (ExpireIdleSessions now thr st)) d a)))
           = Suc (length (sessions st))"
proof -
  have none: "open_session_for (snd (ExpireIdleSessions now thr st)) d = None"
    using assms(2) by (rule ExpireIdleSessions_open_for)
  have hire: "hire_status (snd (ExpireIdleSessions now thr st)) d = Some NotStarted"
    using assms(1) by (simp add: ExpireIdleSessions_def)
  show ?thesis
    using none hire by (simp add: StartSession_def Let_def ExpireIdleSessions_def)
qed

lemma expire_started:
  "ExpireIdleSessions 1000 500 store_started
     = ([1], store_started\<lparr>sessions := [session_started\<lparr>state := Expired, version := 1\<rparr>]\<rparr>)"
  by (simp add: ExpireIdleSessions_def idle_def is_open_def store_started_def session_started_def)

lemma StartSession_not_started:
  assumes "hire_status st d = Some NotStarted"
  shows "\<exists>sid. fst (StartSession now ack st d a) = Inr sid"
  using assms by (simp add: StartSession_def Let_def split: option.splits)

text \<open>
  C5. \<open>ExpireIdleSessions\<close> turns every open session whose last activity lies
  more than the threshold before \<open>now\<close> into \<open>Expired\<close> and leaves every other
  session as it is; afterwards no session is idle. It does not touch the documents
  or the ledger, so a \<open>hire_status\<close> of \<open>NotStarted\<close> stays \<open>NotStarted\<close>, and
  a \<open>StartSession\<close> for such a document after the sweep returns a session id.
  When the open sessions of the document were all idle, that id is a fresh one and
  the call adds one session.
\<close>

theorem ExpireIdleSessions_frees_document:
  "list_all2
     (\<lambda>s s'. if idle now thr s then s' = s\<lparr>state := Expired, version := version s + 1\<rparr> else s' = s)
     (sessions st) (sessions (snd (ExpireIdleSessions now thr st))) \<and>
   (\<forall>s' \<in> set (sessions (snd (ExpireIdleSessions now thr st))). \<not> idle now thr s') \<and>
   hire_status (snd (ExpireIdleSessions now thr st)) = hire_status st \<and>
   ledger (snd (ExpireIdleSessions now thr st)) = ledger st \<and>
   (hire_status st d = Some NotStarted \<longrightarrow>
      (\<exists>sid. fst (StartSession now' ack (snd (ExpireIdleSessions now thr st)) d a) = Inr sid)) \<and>
   (hire_status st d = Some NotStarted \<and>
    (\<forall>s \<in> set (sessions st). document_id s = d \<and> is_open s \<longrightarrow> idle now thr s) \<longrightarrow>
      fst (StartSession now' ack (snd (ExpireIdleSessions now thr st)) d a)
        = Inr (next_session_id st) \<and>
      length (sessions (snd (StartSession now' ack (snd (ExpireIdleSessions now thr st)) d a)))
        = Suc (length (sessions st)))"
proof (intro conjI impI ballI)
  show "list_all2
     (\<lambda>s s'. if idle now thr s then s' = s\<lparr>state := Expired, version := version s + 1\<rparr> else s' = s)
     (sessions st) (sessions (snd (ExpireIdleSessions now thr st)))"
    by (simp add: ExpireIdleSessions_def list_all2_map2 list_all2_same)
next
  fix s'
  assume "s' \<in> set (sessions (snd (ExpireIdleSessions now thr st)))"
  then show "\<not> idle now thr s'"
    by (auto simp: ExpireIdleSessions_def not_idle_expired)
next
  show "hire_status (snd (ExpireIdleSessions now thr st)) = hire_status st"
    by (simp add: ExpireIdleSessions_def)
next
  show "ledger (snd (ExpireIdleSessions now thr st)) = ledger st"
    by (simp add: ExpireIdleSessions_def)
next
  assume "hire_status st d = Some NotStarted"
  then have "hire_status (snd (ExpireIdleSessions now thr st)) d = Some NotStarted"
    by (simp add: ExpireIdleSessions_def)
  then show "\<exists>sid. fst (StartSession now' ack (snd (ExpireIdleSessions now thr st)) d a) = Inr sid"
    by (rule StartSession_not_started)
next
  assume h: "hire_status st d = Some NotStarted \<and>
    (\<forall>s \<in> set (sessions st). document_id s = d \<and> is_open s \<longrightarrow> idle now thr s)"
  then show "fst (StartSession now' ack (snd (ExpireIdleSessions now thr st)) d a)
        = Inr (next_session_id st)"
    using ExpireIdleSessions_then_start [of st d now thr now' ack a] by simp
next
  assume h: "hire_status st d = Some NotStarted \<and>
    (\<forall>s \<in> set (sessions st). document_id s = d \<and> is_open s \<longrightarrow> idle now thr s)"
  then show "length (sessions (snd (StartSession now' ack (snd (ExpireIdleSessions now thr st)) d a)))
        = Suc (length (sessions st))"
    using ExpireIdleSessions_then_start [of st d now thr now' ack a] by simp
qed

theorem ExpireIdleSessions_frees_document_witness:
  "idle 1000 500 session_started \<and>
   sessions (snd (ExpireIdleSessions 1000 500 store_started))
     = [session_started\<lparr>state := Expired, version := 1\<rparr>] \<and>
   hire_status (snd (ExpireIdleSessions 1000 500 store_started)) 42 = Some NotStarted \<and>
   fst (StartSession 1010 True (snd (ExpireIdleSessions 1000 500 store_started)) 42 ''9990001111'')
     = Inr 2 \<and>
   length (sessions (snd (StartSession 1010 True (snd (ExpireIdleSessions 1000 500 store_started)) 42
     ''9990001111''))) = 2"
proof -
  have i: "idle 1000 500 session_started"
    by (simp add: idle_def is_open_def session_started_def)
  have hire: "hire_status store_started 42 = Some NotStarted"
    by (simp add: store_started_def)
  have all: "\<forall>s \<in> set (sessions store_started). document_id s = 42 \<and> is_open s \<longrightarrow> idle 1000 500 s"
    using i by (simp add: store_started_def)
  have n: "next_session_id store_started = 2" "length (sessions store_started) = 1"
    by (simp_all add: store_started_def)
  have e: "sessions (snd (ExpireIdleSessions 1000 500 store_started))
     = [session_started\<lparr>state := Expired, version := 1\<rparr>]"
    by (simp add: expire_started)
  show ?thesis
    using i hire all n e
      ExpireIdleSessions_frees_document [of 1000 500 store_started 42 1010 True "''9990001111''"]
    by simp
qed






end
